theory Spec2Isabelle
  imports Complex_Main "HOL-Library.Extended_Nat"
begin

section \<open>Data model\<close>

text \<open>
  The scalar type \<open>Dtype\<close> of the library is a C++ floating-point type. It is modelled
  by a type variable \<open>'a\<close> that only carries the operation symbols the code uses
  (\<open>+\<close>, \<open>-\<close>, \<open>*\<close>, \<open>0\<close>, \<open>1\<close>) and no algebraic law, so every theorem below
  holds for whatever these operations compute, rounding included. Expressions keep the
  C++ parse: \<open>a * b * c + d\<close> is \<open>((a * b) * c) + d\<close> in both languages.

  Container sizes and loop counters are natural numbers: the clouds are taken to be
  small enough for the \<open>int\<close> and \<open>unsigned int\<close> counters of the source.
\<close>

text \<open>
  The point types of the point-cloud library, \<open>pcl::PointXYZ\<close> and
  \<open>pcl::PointNormal\<close>, which adds the normal and the curvature to the coordinates.
\<close>

record 'a PointXYZ =
  x :: 'a
  y :: 'a
  z :: 'a

record 'a PointNormal = "'a PointXYZ" +
  normal_x :: 'a
  normal_y :: 'a
  normal_z :: 'a
  curvature :: 'a

text \<open>
  What the C++ leaves undefined is a value of the model: dereferencing a shared pointer
  that was never bound, and indexing a vector, a matrix or a cloud out of its range.
\<close>

datatype error = NullPointer | IndexOutOfRange

subsection \<open>Optimisation parameters (\<open>icp.hpp\<close>, \<open>IcpParameters_\<close>)\<close>

record 'a IcpParameters =
  lambda :: 'a
  max_iter :: int
  min_variation :: 'a
  max_correspondance_distance :: 'a
  initial_guess :: "'a list"

text \<open>
  The default constructor \<open>IcpParameters_()\<close> (a constant's name cannot end in an
  underscore, hence \<open>IcpParameters_ctor\<close>; for the same reason the members
  \<open>current_\<close>, \<open>r_\<close>, ... below lose their trailing underscore). Two things it uses
  are not code of the repository and are parameters of the model: \<open>of_literal\<close>, the
  conversion of the value of a decimal floating literal to \<open>Dtype\<close>, and \<open>numeric_limits_max\<close>, the value of
  \<open>std::numeric_limits<Dtype>::max()\<close>. The literal \<open>10e-5\<close> denotes
  \<open>10 \<times> 10\<^sup>-\<^sup>5\<close>; \<open>Zero(6, 1)\<close> is the column of six zeros.
\<close>

definition IcpParameters_ctor :: "(rat \<Rightarrow> 'a) \<Rightarrow> 'a \<Rightarrow> ('a::{zero,one}) IcpParameters" where
  "IcpParameters_ctor of_literal numeric_limits_max =
     \<lparr> lambda = 1,
       max_iter = 10,
       min_variation = of_literal (10 / 10 ^ 5),
       max_correspondance_distance = numeric_limits_max,
       initial_guess = replicate 6 0 \<rparr>"

subsection \<open>Results (\<open>icp.hpp\<close>, \<open>IcpResults_\<close>)\<close>

text \<open>A matrix is the list of its rows; the registered cloud is a shared pointer.\<close>

record ('a, 'p) IcpResults =
  registeredPointCloud :: "'p list option"
  registrationError :: "'a list"
  transformation :: "'a list list"

text \<open>
  \<open>registrationError[registrationError.size() - 1]\<close>: on an empty history the
  unsigned subtraction wraps to the largest \<open>size_t\<close> and the read is out of range.
\<close>

definition getFinalError :: "('a, 'p) IcpResults \<Rightarrow> error + 'a" where
  "getFinalError r =
     (let n = length (registrationError r);
          i = (if n = 0 then 2 ^ 64 - 1 else n - 1)
      in if i < n then Inr (registrationError r ! i) else Inl IndexOutOfRange)"

definition clear :: "('a::zero, 'p) IcpResults \<Rightarrow> ('a, 'p) IcpResults" where
  "clear r = r\<lparr> registrationError := [], transformation := replicate 4 (replicate 4 0) \<rparr>"

subsection \<open>The registration engine (\<open>icp.hpp\<close>, \<open>Icp\<close>)\<close>

text \<open>
  Modelled from the spec: \<open>pcl::KdTreeFLANN\<close> is a class of the point-cloud library
  and not under src/. The spec treats the spatial index as a black-box nearest-neighbour
  structure that wraps the reference set and is (re)built from it by
  \<open>setInputCloud\<close>; the model keeps the cloud the index was last built from.
\<close>

datatype 'p KdTreeFLANN = KdTreeFLANN "'p list option"

definition setInputCloud :: "'p list \<Rightarrow> 'p KdTreeFLANN \<Rightarrow> 'p KdTreeFLANN" where
  "setInputCloud cloud t = KdTreeFLANN (Some cloud)"

text \<open>
  The members of \<open>Icp\<close>. The error kernel and the M-estimator are template parameters
  and stay type parameters.
\<close>

record ('a, 'ps, 'pt, 'e, 'm) Icp =
  target :: "'pt list option"
  kdtree :: "'pt KdTreeFLANN"
  source :: "'ps list option"
  err :: 'e
  mestimator :: 'm
  param :: "'a IcpParameters"
  r :: "('a, 'ps) IcpResults"

text \<open>
  The constructor \<open>Icp() {}\<close> default-constructs every member. The pointers are null,
  the history is the empty vector and \<open>param_\<close> is built by its own constructor.
  \<open>IcpResults_\<close> has no constructor, and the default constructor of a fixed-size
  matrix of the linear-algebra library leaves the coefficients as they are in memory:
  \<open>uninitialized\<close> is that content. \<open>err0\<close> and \<open>mestimator0\<close> are the
  default-constructed strategy objects.
\<close>

definition Icp_ctor ::
  "(rat \<Rightarrow> 'a) \<Rightarrow> 'a \<Rightarrow> 'e \<Rightarrow> 'm \<Rightarrow> 'a list list \<Rightarrow> ('a::{zero,one}, 'ps, 'pt, 'e, 'm) Icp" where
  "Icp_ctor of_literal numeric_limits_max err0 mestimator0 uninitialized =
     \<lparr> target = None,
       kdtree = KdTreeFLANN None,
       source = None,
       err = err0,
       mestimator = mestimator0,
       param = IcpParameters_ctor of_literal numeric_limits_max,
       r = \<lparr> registeredPointCloud = None,
             registrationError = [],
             transformation = uninitialized \<rparr> \<rparr>"

definition setParameters ::
  "'a IcpParameters \<Rightarrow> ('a, 'ps, 'pt, 'e, 'm) Icp \<Rightarrow> ('a, 'ps, 'pt, 'e, 'm) Icp" where
  "setParameters p s = s\<lparr> param := p \<rparr>"

definition getParameters :: "('a, 'ps, 'pt, 'e, 'm) Icp \<Rightarrow> 'a IcpParameters" where
  "getParameters s = param s"

definition setInputTarget ::
  "'pt list \<Rightarrow> ('a, 'ps, 'pt, 'e, 'm) Icp \<Rightarrow> ('a, 'ps, 'pt, 'e, 'm) Icp" where
  "setInputTarget cloud s = s\<lparr> target := Some cloud, kdtree := setInputCloud cloud (kdtree s) \<rparr>"

definition setInputSource ::
  "'ps list \<Rightarrow> ('a, 'ps, 'pt, 'e, 'm) Icp \<Rightarrow> ('a, 'ps, 'pt, 'e, 'm) Icp" where
  "setInputSource cloud s = s\<lparr> source := Some cloud \<rparr>"

text \<open>\<open>getResults\<close> returns a copy of \<open>r_\<close>; nothing in it can fail.\<close>

definition getResults :: "('a, 'ps, 'pt, 'e, 'm) Icp \<Rightarrow> ('a, 'ps) IcpResults" where
  "getResults s = r s"

subsection \<open>The point-to-plane error (\<open>error_point_to_plane.cpp\<close>)\<close>

text \<open>
  The members of \<open>ErrorPointToPlane\<close>: the two cloud pointers, the residual vector,
  the n\<times>3 weight matrix and the n\<times>6 Jacobian. The reference point type is
  \<open>pcl::PointXYZ\<close> or an extension of it (the two instantiations of the source).
\<close>

record ('a, 'm) ErrorPointToPlane =
  reference :: "('a, 'm) PointXYZ_scheme list option"
  current :: "'a PointNormal list option"
  errorVector :: "'a list"
  weights :: "'a list list"
  J :: "'a list list"

text \<open>The log: one record for each \<open>LOG(severity) << ...\<close> statement, with what is streamed.\<close>

datatype severity = INFO | WARNING | ERROR | FATAL

datatype ('a, 'p) log_item =
  Text string | Scalars "'a list" | ReferencePoint 'p | CurrentPoint "'a PointNormal"

type_synonym ('a, 'p) log_record = "severity \<times> ('a, 'p) log_item list"

text \<open>
  \<open>computeJacobian\<close>: \<open>J_.setZero(n, 6)\<close>, then row \<open>i\<close> is written from point \<open>i\<close>
  of the current cloud.
\<close>

function computeJacobian_loop ::
  "nat \<Rightarrow> nat \<Rightarrow> ('a::{times,minus}) PointNormal list \<Rightarrow> 'a list list \<Rightarrow> error + 'a list list" where
  "computeJacobian_loop i n cur jac =
     (if i < n then
        (if i < length cur \<and> i < length jac then
           let p = cur ! i in
           computeJacobian_loop (Suc i) n cur
             (jac[i := [normal_x p, normal_y p, normal_z p,
                        y p * normal_z p - z p * normal_y p,
                        z p * normal_x p - x p * normal_z p,
                        y p * normal_y p - y p * normal_x p]])
         else Inl IndexOutOfRange)
      else Inr jac)"
  by pat_completeness auto
termination
  by (relation "measure (\<lambda>(i, n, cur, jac). n - i)") auto

definition computeJacobian ::
  "('a::{times,minus,zero}, 'm) ErrorPointToPlane \<Rightarrow> error + ('a, 'm) ErrorPointToPlane" where
  "computeJacobian s =
     (case current s of
        None \<Rightarrow> Inl NullPointer
      | Some cur \<Rightarrow>
          let n = length cur in
          (case computeJacobian_loop 0 n cur (replicate n (replicate 6 0)) of
             Inl e \<Rightarrow> Inl e
           | Inr jac \<Rightarrow> Inr (s\<lparr> J := jac \<rparr>)))"

text \<open>
  Modelled from the spec: \<open>pcltools::substractPointcloud\<close> is not under src/. The spec
  gives the difference vector of correspondence \<open>i\<close> as \<open>current_i - reference_i\<close>, and
  the result is a cloud of the reference's point type. The coordinates are the
  differences; the fields a reference point has beyond them are kept (no claim reads
  them).
\<close>

definition substractPointcloud ::
  "('a::minus, 'm) PointXYZ_scheme list \<Rightarrow> 'a PointNormal list \<Rightarrow> ('a, 'm) PointXYZ_scheme list" where
  "substractPointcloud ref cur =
     map2 (\<lambda>p c. p\<lparr> x := x c - x p, y := y c - y p, z := z c - z p \<rparr>) ref cur"

text \<open>
  The loop of \<open>computeError\<close> over the difference cloud \<open>pc_e\<close>. The reads
  \<open>(*current_)[i]\<close> and \<open>weights_(i, 0..2)\<close> and the write \<open>errorVector_[i]\<close> are
  not guarded in the source; out of range they are \<open>IndexOutOfRange\<close>.
\<close>

function computeError_loop ::
  "nat \<Rightarrow> ('a::{times,plus}, 'm) PointXYZ_scheme list \<Rightarrow> 'a PointNormal list \<Rightarrow> 'a list list \<Rightarrow>
   'a list \<Rightarrow> error + 'a list" where
  "computeError_loop i pc_e cur w ev =
     (if i < length pc_e then
        (if i < length cur \<and> i < length w \<and> 2 < length (w ! i) \<and> i < length ev then
           let p = pc_e ! i; n = cur ! i in
           computeError_loop (Suc i) pc_e cur w
             (ev[i := w ! i ! 0 * normal_x n * x p
                      + w ! i ! 1 * normal_y n * y p
                      + w ! i ! 2 * normal_z n * z p])
         else Inl IndexOutOfRange)
      else Inr ev)"
  by pat_completeness auto
termination
  by (relation "measure (\<lambda>(i, pc_e, cur, w, ev). length pc_e - i)") auto

text \<open>
  \<open>computeError\<close>. The difference cloud comes from the helper, a parameter here (the
  model of it above is one instance); \<open>isfinite\<close> is the finiteness test of the scalar
  type behind \<open>allFinite()\<close>. The result is the new state and the log records emitted.
\<close>

definition computeError ::
  "(('a, 'm) PointXYZ_scheme list \<Rightarrow> 'a PointNormal list \<Rightarrow> ('a, 'm) PointXYZ_scheme list) \<Rightarrow>
   ('a \<Rightarrow> bool) \<Rightarrow> ('a::{times,plus}, 'm) ErrorPointToPlane \<Rightarrow>
   error + (('a, 'm) ErrorPointToPlane \<times> ('a, ('a, 'm) PointXYZ_scheme) log_record list)" where
  "computeError subtract isfinite s =
     (case reference s of
        None \<Rightarrow> Inl NullPointer
      | Some ref \<Rightarrow>
     (case current s of
        None \<Rightarrow> Inl NullPointer
      | Some cur \<Rightarrow>
          let pc_e = subtract ref cur in
          (case computeError_loop 0 pc_e cur (weights s) (errorVector s) of
             Inl e \<Rightarrow> Inl e
           | Inr ev \<Rightarrow>
               Inr (s\<lparr> errorVector := ev \<rparr>,
                    if \<not> list_all isfinite ev then
                      [(WARNING, [Text (''Error Vector has NaN values'' @ [CHR 0x0A] @ ''!''),
                                  Scalars ev]),
                       (WARNING, [Text ''Displaying p_e''])]
                      @ map (\<lambda>p. (WARNING, [ReferencePoint p])) pc_e
                      @ [(WARNING, [Text ''Displaying reference_''])]
                      @ map (\<lambda>p. (WARNING, [ReferencePoint p])) ref
                      @ [(WARNING, [Text ''Displaying current_''])]
                      @ map (\<lambda>p. (WARNING, [CurrentPoint p])) cur
                    else []))))"

text \<open>
  \<open>setInputCurrent\<close>. Resizing the residual vector keeps it when the size is the same
  and otherwise reallocates it without initialising: \<open>uninitialized\<close> is the content
  of the new storage. The weight matrix is resized and then assigned \<open>Ones(n, 3)\<close>,
  which overwrites every coefficient.
\<close>

definition resize :: "(nat \<Rightarrow> 'a) \<Rightarrow> nat \<Rightarrow> 'a list \<Rightarrow> 'a list" where
  "resize uninitialized n v = (if length v = n then v else map uninitialized [0..<n])"

definition setInputCurrent ::
  "(nat \<Rightarrow> 'a) \<Rightarrow> 'a PointNormal list \<Rightarrow> ('a::{zero,one}, 'm) ErrorPointToPlane \<Rightarrow>
   ('a, 'm) ErrorPointToPlane" where
  "setInputCurrent uninitialized cloud s =
     (let n = length cloud in
      s\<lparr> current := Some cloud,
         errorVector := resize uninitialized n (errorVector s),
         weights := replicate n (replicate 3 1),
         J := replicate n (replicate 6 0) \<rparr>)"

definition setInputReference ::
  "('a, 'm) PointXYZ_scheme list \<Rightarrow> ('a, 'm) ErrorPointToPlane \<Rightarrow> ('a, 'm) ErrorPointToPlane" where
  "setInputReference cloud s = s\<lparr> reference := Some cloud \<rparr>"

text \<open>
  The loops are unfolded one step at a time in the proofs, not by the simplifier.
\<close>

declare computeJacobian_loop.simps [simp del]
declare computeError_loop.simps [simp del]

section \<open>Results and parameters\<close>

text \<open>
  C8: for every Result Record whose error history is not empty, \<open>getFinalError\<close>
  returns the last element of the history (the history is kept in order, the initial
  error first and the final error last).
\<close>

theorem getFinalError_last:
  "registrationError res \<noteq> [] \<Longrightarrow> getFinalError res = Inr (last (registrationError res))"
  by (simp add: getFinalError_def Let_def last_conv_nth)

theorem getFinalError_last_witness:
  "registrationError \<lparr> registeredPointCloud = (None :: unit list option),
       registrationError = [5, 2, 1 :: int], transformation = [] \<rparr> \<noteq> []
   \<and> getFinalError \<lparr> registeredPointCloud = (None :: unit list option),
       registrationError = [5, 2, 1 :: int], transformation = [] \<rparr> = Inr 1"
  using getFinalError_last [of "\<lparr> registeredPointCloud = (None :: unit list option),
       registrationError = [5, 2, 1 :: int], transformation = [] \<rparr>"]
  by simp

text \<open>
  C3: a default-constructed \<open>IcpParameters_\<close> has \<open>lambda = 1\<close>, \<open>max_iter = 10\<close>,
  \<open>min_variation\<close> the scalar of the literal value \<open>1e-4\<close>,
  \<open>max_correspondance_distance\<close> the largest value of the scalar type, and
  \<open>initial_guess\<close> the zero 6-vector.
\<close>

theorem IcpParameters_default:
  "IcpParameters_ctor of_literal numeric_limits_max =
     \<lparr> lambda = 1,
       max_iter = 10,
       min_variation = of_literal (1 / 10 ^ 4),
       max_correspondance_distance = numeric_limits_max,
       initial_guess = [0, 0, 0, 0, 0, 0] \<rparr>"
  by (simp add: IcpParameters_ctor_def numeral_eq_Suc)

section \<open>The point-to-plane Jacobian\<close>

text \<open>
  The loop, started at \<open>i\<close> on a matrix with a row for every point, returns, keeps
  the number of rows, has written every row from \<open>i\<close> on and has kept those before.
\<close>



lemma computeJacobian_loop_rows:
  "n \<le> length cur \<Longrightarrow> n \<le> length jac \<Longrightarrow>
   \<exists>jac'. computeJacobian_loop i n cur jac = Inr jac' \<and> length jac' = length jac \<and>
     (\<forall>k. i \<le> k \<and> k < n \<longrightarrow>
        jac' ! k = [normal_x (cur ! k), normal_y (cur ! k), normal_z (cur ! k),
                    y (cur ! k) * normal_z (cur ! k) - z (cur ! k) * normal_y (cur ! k),
                    z (cur ! k) * normal_x (cur ! k) - x (cur ! k) * normal_z (cur ! k),
                    y (cur ! k) * normal_y (cur ! k) - y (cur ! k) * normal_x (cur ! k)]) \<and>
     (\<forall>k. k < i \<longrightarrow> jac' ! k = jac ! k)"
proof (induction i n cur jac rule: computeJacobian_loop.induct)
  case (1 i n cur jac)
  show ?case
  proof (cases "i < n")
    case False
    then show ?thesis
      by (auto simp add: computeJacobian_loop.simps [of i n cur jac])
  next
    case True
    let ?row = "[normal_x (cur ! i), normal_y (cur ! i), normal_z (cur ! i),
                    y (cur ! i) * normal_z (cur ! i) - z (cur ! i) * normal_y (cur ! i),
                    z (cur ! i) * normal_x (cur ! i) - x (cur ! i) * normal_z (cur ! i),
                    y (cur ! i) * normal_y (cur ! i) - y (cur ! i) * normal_x (cur ! i)]"
    from True "1.prems" have inb: "i < length cur \<and> i < length jac" by simp
    have step: "computeJacobian_loop i n cur jac = computeJacobian_loop (Suc i) n cur (jac[i := ?row])"
      using True inb by (simp add: computeJacobian_loop.simps [of i n cur jac] Let_def)
    from "1.IH" [OF True inb refl] "1.prems"
    obtain jac' where r: "computeJacobian_loop (Suc i) n cur (jac[i := ?row]) = Inr jac'"
      and l: "length jac' = length jac"
      and hi: "\<forall>k. Suc i \<le> k \<and> k < n \<longrightarrow>
        jac' ! k = [normal_x (cur ! k), normal_y (cur ! k), normal_z (cur ! k),
                    y (cur ! k) * normal_z (cur ! k) - z (cur ! k) * normal_y (cur ! k),
                    z (cur ! k) * normal_x (cur ! k) - x (cur ! k) * normal_z (cur ! k),
                    y (cur ! k) * normal_y (cur ! k) - y (cur ! k) * normal_x (cur ! k)]"
      and lo: "\<forall>k. k < Suc i \<longrightarrow> jac' ! k = (jac[i := ?row]) ! k"
      by auto
    from lo inb have at_i: "jac' ! i = ?row" by simp
    have "\<forall>k. i \<le> k \<and> k < n \<longrightarrow>
        jac' ! k = [normal_x (cur ! k), normal_y (cur ! k), normal_z (cur ! k),
                    y (cur ! k) * normal_z (cur ! k) - z (cur ! k) * normal_y (cur ! k),
                    z (cur ! k) * normal_x (cur ! k) - x (cur ! k) * normal_z (cur ! k),
                    y (cur ! k) * normal_y (cur ! k) - y (cur ! k) * normal_x (cur ! k)]"
    proof (intro allI impI)
      fix k assume k: "i \<le> k \<and> k < n"
      show "jac' ! k = [normal_x (cur ! k), normal_y (cur ! k), normal_z (cur ! k),
                    y (cur ! k) * normal_z (cur ! k) - z (cur ! k) * normal_y (cur ! k),
                    z (cur ! k) * normal_x (cur ! k) - x (cur ! k) * normal_z (cur ! k),
                    y (cur ! k) * normal_y (cur ! k) - y (cur ! k) * normal_x (cur ! k)]"
      proof (cases "k = i")
        case True then show ?thesis using at_i by simp
      next
        case False
        with k have "Suc i \<le> k \<and> k < n" by simp
        with hi show ?thesis by blast
      qed
    qed
    moreover have "\<forall>k. k < i \<longrightarrow> jac' ! k = jac ! k"
      using lo by simp
    ultimately show ?thesis using step r l by simp
  qed
qed

text \<open>
  C2: for every index \<open>i\<close> into the bound current cloud, \<open>computeJacobian\<close> returns
  and row \<open>i\<close> of the Jacobian (which has one row for each point) is
  \<open>[n_x, n_y, n_z, y n_z - z n_y, z n_x - x n_z, y n_y - y n_x]\<close> at the position and
  the normal of current point \<open>i\<close>.
\<close>

theorem computeJacobian_row:
  assumes "current s = Some c" and "i < length c"
  shows "\<exists>s'. computeJacobian s = Inr s' \<and> length (J s') = length c \<and>
           J s' ! i = [normal_x (c ! i), normal_y (c ! i), normal_z (c ! i),
                       y (c ! i) * normal_z (c ! i) - z (c ! i) * normal_y (c ! i),
                       z (c ! i) * normal_x (c ! i) - x (c ! i) * normal_z (c ! i),
                       y (c ! i) * normal_y (c ! i) - y (c ! i) * normal_x (c ! i)]"
proof -
  from computeJacobian_loop_rows [of "length c" c "replicate (length c) (replicate 6 0)" 0]
  obtain jac' where r: "computeJacobian_loop 0 (length c) c (replicate (length c) (replicate 6 0)) = Inr jac'"
    and l: "length jac' = length c"
    and rows: "\<forall>k. 0 \<le> k \<and> k < length c \<longrightarrow>
        jac' ! k = [normal_x (c ! k), normal_y (c ! k), normal_z (c ! k),
                    y (c ! k) * normal_z (c ! k) - z (c ! k) * normal_y (c ! k),
                    z (c ! k) * normal_x (c ! k) - x (c ! k) * normal_z (c ! k),
                    y (c ! k) * normal_y (c ! k) - y (c ! k) * normal_x (c ! k)]"
    by auto
  from rows assms(2) have "jac' ! i = [normal_x (c ! i), normal_y (c ! i), normal_z (c ! i),
                       y (c ! i) * normal_z (c ! i) - z (c ! i) * normal_y (c ! i),
                       z (c ! i) * normal_x (c ! i) - x (c ! i) * normal_z (c ! i),
                       y (c ! i) * normal_y (c ! i) - y (c ! i) * normal_x (c ! i)]"
    by blast
  then show ?thesis
    using assms(1) r l by (simp add: computeJacobian_def Let_def)
qed

theorem computeJacobian_row_witness:
  "current \<lparr> reference = (None :: int PointXYZ list option),
             current = Some [\<lparr> x = 1, y = 2, z = 3, normal_x = 0, normal_y = 0, normal_z = 1, curvature = 0 \<rparr>,
                             \<lparr> x = 4, y = 5, z = 6, normal_x = 1, normal_y = 2, normal_z = 3, curvature = 0 \<rparr>],
             errorVector = [], weights = [], J = [] \<rparr>
     = Some [\<lparr> x = 1, y = 2, z = 3, normal_x = 0, normal_y = 0, normal_z = 1, curvature = 0 \<rparr>,
             \<lparr> x = 4, y = 5, z = 6, normal_x = 1, normal_y = 2, normal_z = 3, curvature = 0 \<rparr>]
   \<and> (\<exists>s'. computeJacobian
             \<lparr> reference = (None :: int PointXYZ list option),
               current = Some [\<lparr> x = 1, y = 2, z = 3, normal_x = 0, normal_y = 0, normal_z = 1, curvature = 0 \<rparr>,
                               \<lparr> x = 4, y = 5, z = 6, normal_x = 1, normal_y = 2, normal_z = 3, curvature = 0 \<rparr>],
               errorVector = [], weights = [], J = [] \<rparr> = Inr s'
          \<and> length (J s') = 2
          \<and> J s' ! 1 = [1, 2, 3, 3, - 6, 5])"
  using computeJacobian_row
    [of "\<lparr> reference = (None :: int PointXYZ list option),
           current = Some [\<lparr> x = 1, y = 2, z = 3, normal_x = 0, normal_y = 0, normal_z = 1, curvature = 0 \<rparr>,
                           \<lparr> x = 4, y = 5, z = 6, normal_x = 1, normal_y = 2, normal_z = 3, curvature = 0 \<rparr>],
           errorVector = [], weights = [], J = [] \<rparr>"
        "[\<lparr> x = 1, y = 2, z = 3, normal_x = 0, normal_y = 0, normal_z = 1, curvature = 0 \<rparr>,
          \<lparr> x = 4, y = 5, z = 6, normal_x = 1, normal_y = 2, normal_z = 3, curvature = 0 \<rparr>]" 1]
  by (simp add: numeral_2_eq_2)

section \<open>The point-to-plane residual\<close>

text \<open>
  When the loop returns, every index it used was in range, the vector has kept its
  length, every entry from \<open>i\<close> on holds its residual and the entries before
  \<open>i\<close> are kept.
\<close>

lemma computeError_loop_Inr:
  "computeError_loop i pc_e cur w ev = Inr ev' \<Longrightarrow>
   length ev' = length ev \<and>
   (\<forall>k. i \<le> k \<and> k < length pc_e \<longrightarrow>
      k < length cur \<and> k < length w \<and> 2 < length (w ! k) \<and> k < length ev \<and>
      ev' ! k = w ! k ! 0 * normal_x (cur ! k) * x (pc_e ! k)
                + w ! k ! 1 * normal_y (cur ! k) * y (pc_e ! k)
                + w ! k ! 2 * normal_z (cur ! k) * z (pc_e ! k)) \<and>
   (\<forall>k. k < i \<longrightarrow> ev' ! k = ev ! k)"
proof (induction i pc_e cur w ev rule: computeError_loop.induct)
  case (1 i pc_e cur w ev)
  show ?case
  proof (cases "i < length pc_e")
    case False
    with "1.prems" show ?thesis
      by (auto simp add: computeError_loop.simps [of i pc_e cur w ev])
  next
    case True
    let ?v = "w ! i ! 0 * normal_x (cur ! i) * x (pc_e ! i)
              + w ! i ! 1 * normal_y (cur ! i) * y (pc_e ! i)
              + w ! i ! 2 * normal_z (cur ! i) * z (pc_e ! i)"
    have inb: "i < length cur \<and> i < length w \<and> 2 < length (w ! i) \<and> i < length ev"
      using True "1.prems"
      by (simp add: computeError_loop.simps [of i pc_e cur w ev] split: if_splits)
    have step: "computeError_loop (Suc i) pc_e cur w (ev[i := ?v]) = Inr ev'"
      using True inb "1.prems"
      by (simp add: computeError_loop.simps [of i pc_e cur w ev] Let_def)
    from "1.IH" [OF True inb refl refl step]
    have l: "length ev' = length ev"
      and hi: "\<forall>k. Suc i \<le> k \<and> k < length pc_e \<longrightarrow>
        k < length cur \<and> k < length w \<and> 2 < length (w ! k) \<and> k < length ev \<and>
        ev' ! k = w ! k ! 0 * normal_x (cur ! k) * x (pc_e ! k)
                  + w ! k ! 1 * normal_y (cur ! k) * y (pc_e ! k)
                  + w ! k ! 2 * normal_z (cur ! k) * z (pc_e ! k)"
      and lo: "\<forall>k. k < Suc i \<longrightarrow> ev' ! k = (ev[i := ?v]) ! k"
      by simp_all
    from lo inb have at_i: "ev' ! i = ?v" by simp
    have "\<forall>k. i \<le> k \<and> k < length pc_e \<longrightarrow>
        k < length cur \<and> k < length w \<and> 2 < length (w ! k) \<and> k < length ev \<and>
        ev' ! k = w ! k ! 0 * normal_x (cur ! k) * x (pc_e ! k)
                  + w ! k ! 1 * normal_y (cur ! k) * y (pc_e ! k)
                  + w ! k ! 2 * normal_z (cur ! k) * z (pc_e ! k)"
    proof (intro allI impI)
      fix k assume k: "i \<le> k \<and> k < length pc_e"
      show "k < length cur \<and> k < length w \<and> 2 < length (w ! k) \<and> k < length ev \<and>
        ev' ! k = w ! k ! 0 * normal_x (cur ! k) * x (pc_e ! k)
                  + w ! k ! 1 * normal_y (cur ! k) * y (pc_e ! k)
                  + w ! k ! 2 * normal_z (cur ! k) * z (pc_e ! k)"
      proof (cases "k = i")
        case True then show ?thesis using at_i inb by simp
      next
        case False
        with k have "Suc i \<le> k \<and> k < length pc_e" by simp
        with hi show ?thesis by blast
      qed
    qed
    moreover have "\<forall>k. k < i \<longrightarrow> ev' ! k = ev ! k"
      using lo by simp
    ultimately show ?thesis using l by simp
  qed
qed

text \<open>
  The loop returns when every index of the difference cloud is in range of the current
  cloud, of the residual vector and of the weight matrix, whose rows have three columns.
\<close>

lemma computeError_loop_total:
  "length pc_e \<le> length cur \<Longrightarrow> length pc_e \<le> length ev \<Longrightarrow>
   (\<forall>k. k < length pc_e \<longrightarrow> k < length w \<and> 2 < length (w ! k)) \<Longrightarrow>
   \<exists>ev'. computeError_loop i pc_e cur w ev = Inr ev'"
proof (induction i pc_e cur w ev rule: computeError_loop.induct)
  case (1 i pc_e cur w ev)
  show ?case
  proof (cases "i < length pc_e")
    case False
    then show ?thesis
      by (simp add: computeError_loop.simps [of i pc_e cur w ev])
  next
    case True
    with "1.prems"
    have inb: "i < length cur \<and> i < length w \<and> 2 < length (w ! i) \<and> i < length ev"
      by auto
    from "1.IH" [OF True inb refl refl] "1.prems"
    obtain ev' where "computeError_loop (Suc i) pc_e cur w
        (ev[i := w ! i ! 0 * normal_x (cur ! i) * x (pc_e ! i)
              + w ! i ! 1 * normal_y (cur ! i) * y (pc_e ! i)
              + w ! i ! 2 * normal_z (cur ! i) * z (pc_e ! i)]) = Inr ev'"
      by auto
    then show ?thesis
      using True inb by (simp add: computeError_loop.simps [of i pc_e cur w ev] Let_def)
  qed
qed

lemma length_substractPointcloud:
  "length (substractPointcloud ref cur) = min (length ref) (length cur)"
  by (simp add: substractPointcloud_def)

lemma nth_substractPointcloud:
  "i < length ref \<Longrightarrow> i < length cur \<Longrightarrow>
   x (substractPointcloud ref cur ! i) = x (cur ! i) - x (ref ! i) \<and>
   y (substractPointcloud ref cur ! i) = y (cur ! i) - y (ref ! i) \<and>
   z (substractPointcloud ref cur ! i) = z (cur ! i) - z (ref ! i)"
  by (simp add: substractPointcloud_def)

text \<open>
  C1: when every correspondence index is in range of the residual vector and of the
  weight matrix, \<open>computeError\<close> returns, changes the residual vector only, and for
  every correspondence \<open>i\<close> the residual it leaves there is
  \<open>w_x n_x dx + w_y n_y dy + w_z n_z dz\<close>, where \<open>(dx, dy, dz)\<close> is
  \<open>current_i - reference_i\<close>, \<open>n\<close> the normal of current point \<open>i\<close> and
  \<open>(w_x, w_y, w_z)\<close> row \<open>i\<close> of the weight matrix.
\<close>

theorem computeError_residual:
  assumes "reference s = Some ref" and "current s = Some cur"
    and "\<forall>k. k < length ref \<and> k < length cur \<longrightarrow>
           k < length (errorVector s) \<and> k < length (weights s) \<and> 2 < length (weights s ! k)"
  shows "\<exists>ev lg. computeError substractPointcloud isfinite s = Inr (s\<lparr> errorVector := ev \<rparr>, lg) \<and>
           length ev = length (errorVector s) \<and>
           (\<forall>i. i < length ref \<and> i < length cur \<longrightarrow>
              ev ! i =
                weights s ! i ! 0 * normal_x (cur ! i) * (x (cur ! i) - x (ref ! i))
              + weights s ! i ! 1 * normal_y (cur ! i) * (y (cur ! i) - y (ref ! i))
              + weights s ! i ! 2 * normal_z (cur ! i) * (z (cur ! i) - z (ref ! i)))"
proof -
  let ?pc_e = "substractPointcloud ref cur"
  have len: "length ?pc_e = min (length ref) (length cur)"
    by (rule length_substractPointcloud)
  have b1: "length ?pc_e \<le> length cur"
    using len by simp
  have b2: "length ?pc_e \<le> length (errorVector s)"
  proof (rule ccontr)
    assume "\<not> length ?pc_e \<le> length (errorVector s)"
    with len have "length (errorVector s) < length ref \<and> length (errorVector s) < length cur"
      by arith
    with assms(3) have "length (errorVector s) < length (errorVector s)"
      by blast
    then show False by simp
  qed
  have b3: "\<forall>k. k < length ?pc_e \<longrightarrow> k < length (weights s) \<and> 2 < length (weights s ! k)"
    using assms(3) len by simp
  from computeError_loop_total [OF b1 b2 b3, of 0]
  obtain ev where
    loop: "computeError_loop 0 ?pc_e cur (weights s) (errorVector s) = Inr ev"
    by blast
  from computeError_loop_Inr [OF loop]
  have lev: "length ev = length (errorVector s)"
    and val: "\<forall>k. 0 \<le> k \<and> k < length ?pc_e \<longrightarrow>
        ev ! k = weights s ! k ! 0 * normal_x (cur ! k) * x (?pc_e ! k)
               + weights s ! k ! 1 * normal_y (cur ! k) * y (?pc_e ! k)
               + weights s ! k ! 2 * normal_z (cur ! k) * z (?pc_e ! k)"
    by simp_all
  have res: "\<forall>i. i < length ref \<and> i < length cur \<longrightarrow>
              ev ! i =
                weights s ! i ! 0 * normal_x (cur ! i) * (x (cur ! i) - x (ref ! i))
              + weights s ! i ! 1 * normal_y (cur ! i) * (y (cur ! i) - y (ref ! i))
              + weights s ! i ! 2 * normal_z (cur ! i) * (z (cur ! i) - z (ref ! i))"
  proof (intro allI impI)
    fix i assume i: "i < length ref \<and> i < length cur"
    then have "i < length ?pc_e" using len by simp
    with val have "ev ! i = weights s ! i ! 0 * normal_x (cur ! i) * x (?pc_e ! i)
               + weights s ! i ! 1 * normal_y (cur ! i) * y (?pc_e ! i)
               + weights s ! i ! 2 * normal_z (cur ! i) * z (?pc_e ! i)"
      by simp
    with nth_substractPointcloud [of i ref cur] i
    show "ev ! i =
                weights s ! i ! 0 * normal_x (cur ! i) * (x (cur ! i) - x (ref ! i))
              + weights s ! i ! 1 * normal_y (cur ! i) * (y (cur ! i) - y (ref ! i))
              + weights s ! i ! 2 * normal_z (cur ! i) * (z (cur ! i) - z (ref ! i))"
      by simp
  qed
  have "\<exists>lg. computeError substractPointcloud isfinite s = Inr (s\<lparr> errorVector := ev \<rparr>, lg)"
    using assms(1,2) loop by (simp add: computeError_def Let_def)
  with lev res show ?thesis by blast
qed

theorem computeError_residual_witness:
  "(\<exists>ev lg. computeError substractPointcloud (\<lambda>v. True)
     \<lparr> reference = Some [\<lparr> x = 1, y = 1, z = 1 \<rparr>, \<lparr> x = 2, y = 0, z = 5 \<rparr>],
       current = Some [\<lparr> x = 1, y = 2, z = 3, normal_x = 0, normal_y = 0, normal_z = 1, curvature = 0 \<rparr>,
                       \<lparr> x = 4, y = 5, z = 6, normal_x = 1, normal_y = 2, normal_z = 3, curvature = 0 \<rparr>],
       errorVector = [0, 0 :: int], weights = [[1, 1, 1], [2, 3, 4]],
       J = [[0, 0, 0, 0, 0, 0], [0, 0, 0, 0, 0, 0]] \<rparr>
       = Inr (\<lparr> reference = Some [\<lparr> x = 1, y = 1, z = 1 \<rparr>, \<lparr> x = 2, y = 0, z = 5 \<rparr>],
       current = Some [\<lparr> x = 1, y = 2, z = 3, normal_x = 0, normal_y = 0, normal_z = 1, curvature = 0 \<rparr>,
                       \<lparr> x = 4, y = 5, z = 6, normal_x = 1, normal_y = 2, normal_z = 3, curvature = 0 \<rparr>],
       errorVector = [0, 0 :: int], weights = [[1, 1, 1], [2, 3, 4]],
       J = [[0, 0, 0, 0, 0, 0], [0, 0, 0, 0, 0, 0]] \<rparr>\<lparr> errorVector := ev \<rparr>, lg)
     \<and> length ev = 2
     \<and> ev ! 0 = 1 * 0 * (1 - 1) + 1 * 0 * (2 - 1) + 1 * 1 * (3 - 1)
     \<and> ev ! 1 = 2 * 1 * (4 - 2) + 3 * 2 * (5 - 0) + 4 * 3 * (6 - 5))"
proof -
  let ?s = "\<lparr> reference = Some [\<lparr> x = 1, y = 1, z = 1 \<rparr>, \<lparr> x = 2, y = 0, z = 5 \<rparr>],
       current = Some [\<lparr> x = 1, y = 2, z = 3, normal_x = 0, normal_y = 0, normal_z = 1, curvature = 0 \<rparr>,
                       \<lparr> x = 4, y = 5, z = 6, normal_x = 1, normal_y = 2, normal_z = 3, curvature = 0 \<rparr>],
       errorVector = [0, 0 :: int], weights = [[1, 1, 1], [2, 3, 4]],
       J = [[0, 0, 0, 0, 0, 0], [0, 0, 0, 0, 0, 0]] \<rparr>"
  let ?ref = "[\<lparr> x = 1, y = 1, z = 1 :: int \<rparr>, \<lparr> x = 2, y = 0, z = 5 \<rparr>]"
  let ?cur = "[\<lparr> x = 1, y = 2, z = 3 :: int, normal_x = 0, normal_y = 0, normal_z = 1, curvature = 0 \<rparr>,
      \<lparr> x = 4, y = 5, z = 6, normal_x = 1, normal_y = 2, normal_z = 3, curvature = 0 \<rparr>]"
  have h1: "reference ?s = Some ?ref" and h2: "current ?s = Some ?cur"
    by simp_all
  have h3: "\<forall>k. k < length ?ref \<and> k < length ?cur \<longrightarrow>
           k < length (errorVector ?s) \<and> k < length (weights ?s) \<and> 2 < length (weights ?s ! k)"
    by (simp add: less_Suc_eq)
  have "\<exists>ev lg. computeError substractPointcloud (\<lambda>v. True) ?s = Inr (?s\<lparr> errorVector := ev \<rparr>, lg)
     \<and> length ev = 2
     \<and> ev ! 0 = 1 * 0 * (1 - 1) + 1 * 0 * (2 - 1) + 1 * 1 * (3 - 1)
     \<and> ev ! 1 = 2 * 1 * (4 - 2) + 3 * 2 * (5 - 0) + 4 * 3 * (6 - 5)"
    using computeError_residual [OF h1 h2 h3, of "\<lambda>v. True"]
    by (auto simp add: less_Suc_eq numeral_2_eq_2)
  then show ?thesis .
qed

text \<open>
  C10: when the difference cloud built from the reference and the current cloud is no
  longer than the current cloud, and the buffers were sized by \<open>setInputCurrent\<close> for
  that current cloud (the reference bound before or after), every index that
  \<open>computeError\<close> uses into the residual vector, the weight matrix and the current
  cloud is in range, and the call returns.
\<close>

theorem computeError_in_bounds:
  assumes "length (subtract ref cur) \<le> length cur"
    and "s = setInputReference ref (setInputCurrent uninitialized cur s0)
         \<or> s = setInputCurrent uninitialized cur (setInputReference ref s0)"
  shows "(\<forall>i. i < length (subtract ref cur) \<longrightarrow>
            i < length (errorVector s) \<and> i < length (weights s) \<and> 2 < length (weights s ! i) \<and>
            (\<exists>c. current s = Some c \<and> i < length c))
         \<and> (\<exists>s' lg. computeError subtract isfinite s = Inr (s', lg))"
proof -
  from assms(2) have ref: "reference s = Some ref" and cur: "current s = Some cur"
    and ev: "length (errorVector s) = length cur"
    and w: "weights s = replicate (length cur) (replicate 3 1)"
    by (auto simp add: setInputReference_def setInputCurrent_def resize_def Let_def)
  have bounds: "\<forall>i. i < length (subtract ref cur) \<longrightarrow>
            i < length (errorVector s) \<and> i < length (weights s) \<and> 2 < length (weights s ! i) \<and>
            (\<exists>c. current s = Some c \<and> i < length c)"
    using assms(1) cur ev w by auto
  have "\<exists>ev'. computeError_loop 0 (subtract ref cur) cur (weights s) (errorVector s) = Inr ev'"
    using assms(1) ev w by (intro computeError_loop_total) auto
  then have "\<exists>s' lg. computeError subtract isfinite s = Inr (s', lg)"
    using ref cur by (auto simp add: computeError_def Let_def)
  with bounds show ?thesis by blast
qed

theorem computeError_in_bounds_witness:
  "length (substractPointcloud [\<lparr> x = 1, y = 1, z = 1 :: int \<rparr>, \<lparr> x = 2, y = 0, z = 5 \<rparr>]
      [\<lparr> x = 1, y = 2, z = 3, normal_x = 0, normal_y = 0, normal_z = 1, curvature = 0 \<rparr>,
       \<lparr> x = 4, y = 5, z = 6, normal_x = 1, normal_y = 2, normal_z = 3, curvature = 0 \<rparr>])
     \<le> length [\<lparr> x = 1, y = 2, z = 3 :: int, normal_x = 0, normal_y = 0, normal_z = 1, curvature = 0 \<rparr>,
               \<lparr> x = 4, y = 5, z = 6, normal_x = 1, normal_y = 2, normal_z = 3, curvature = 0 \<rparr>]
   \<and> (\<exists>s' lg. computeError substractPointcloud (\<lambda>v. True)
         (setInputReference [\<lparr> x = 1, y = 1, z = 1 :: int \<rparr>, \<lparr> x = 2, y = 0, z = 5 \<rparr>]
           (setInputCurrent (\<lambda>i. 0)
              [\<lparr> x = 1, y = 2, z = 3, normal_x = 0, normal_y = 0, normal_z = 1, curvature = 0 \<rparr>,
               \<lparr> x = 4, y = 5, z = 6, normal_x = 1, normal_y = 2, normal_z = 3, curvature = 0 \<rparr>]
              \<lparr> reference = None, current = None, errorVector = [], weights = [], J = [] \<rparr>))
       = Inr (s', lg))"
proof -
  have h: "length (substractPointcloud [\<lparr> x = 1, y = 1, z = 1 :: int \<rparr>, \<lparr> x = 2, y = 0, z = 5 \<rparr>]
      [\<lparr> x = 1, y = 2, z = 3, normal_x = 0, normal_y = 0, normal_z = 1, curvature = 0 \<rparr>,
       \<lparr> x = 4, y = 5, z = 6, normal_x = 1, normal_y = 2, normal_z = 3, curvature = 0 \<rparr>])
     \<le> length [\<lparr> x = 1, y = 2, z = 3 :: int, normal_x = 0, normal_y = 0, normal_z = 1, curvature = 0 \<rparr>,
               \<lparr> x = 4, y = 5, z = 6, normal_x = 1, normal_y = 2, normal_z = 3, curvature = 0 \<rparr>]"
    by (simp add: substractPointcloud_def)
  from computeError_in_bounds
      [where subtract = substractPointcloud and uninitialized = "\<lambda>i. 0" and isfinite = "\<lambda>v. True"
         and ?s0.0 = "\<lparr> reference = None, current = None, errorVector = [], weights = [], J = [] \<rparr>",
       OF h disjI1 [OF refl]]
    h show ?thesis by blast
qed

text \<open>
  C7: with every access in range the loop of \<open>computeError\<close> returns the residual
  vector, and if an entry of it is not finite the call still returns. It then leaves
  that vector, non-finite entries included, in the state, and emits warning records
  that hold the residual vector, the difference points, the reference points and the
  current points.
\<close>

theorem computeError_nonfinite_warns:
  assumes "reference s = Some ref" and "current s = Some cur"
    and "length (subtract ref cur) \<le> length cur"
    and "length (subtract ref cur) \<le> length (errorVector s)"
    and "\<forall>k. k < length (subtract ref cur) \<longrightarrow> k < length (weights s) \<and> 2 < length (weights s ! k)"
  shows "\<exists>ev. computeError_loop 0 (subtract ref cur) cur (weights s) (errorVector s) = Inr ev \<and>
           ((\<exists>v \<in> set ev. \<not> isfinite v) \<longrightarrow>
            computeError subtract isfinite s =
              Inr (s\<lparr> errorVector := ev \<rparr>,
                   [(WARNING, [Text (''Error Vector has NaN values'' @ [CHR 0x0A] @ ''!''), Scalars ev]),
                    (WARNING, [Text ''Displaying p_e''])]
                   @ map (\<lambda>p. (WARNING, [ReferencePoint p])) (subtract ref cur)
                   @ [(WARNING, [Text ''Displaying reference_''])]
                   @ map (\<lambda>p. (WARNING, [ReferencePoint p])) ref
                   @ [(WARNING, [Text ''Displaying current_''])]
                   @ map (\<lambda>p. (WARNING, [CurrentPoint p])) cur))"
proof -
  from computeError_loop_total [OF assms(3,4,5), of 0]
  obtain ev where loop: "computeError_loop 0 (subtract ref cur) cur (weights s) (errorVector s) = Inr ev"
    by blast
  have "(\<exists>v \<in> set ev. \<not> isfinite v) \<Longrightarrow> \<not> list_all isfinite ev"
    by (simp add: list_all_iff)
  with loop assms(1,2) show ?thesis
    by (auto simp add: computeError_def Let_def)
qed

theorem computeError_nonfinite_warns_witness:
  "(\<exists>v \<in> set [\<infinity> :: enat]. \<not> v \<noteq> \<infinity>) \<and>
   computeError substractPointcloud (\<lambda>v. v \<noteq> \<infinity>)
     \<lparr> reference = Some [\<lparr> x = 0, y = 0, z = 0 \<rparr>],
       current = Some [\<lparr> x = \<infinity>, y = 1, z = 1, normal_x = 1, normal_y = 1, normal_z = 1, curvature = 0 \<rparr>],
       errorVector = [0 :: enat], weights = [[1, 1, 1]], J = [] \<rparr>
   = Inr (\<lparr> reference = Some [\<lparr> x = 0, y = 0, z = 0 \<rparr>],
       current = Some [\<lparr> x = \<infinity>, y = 1, z = 1, normal_x = 1, normal_y = 1, normal_z = 1, curvature = 0 \<rparr>],
       errorVector = [\<infinity> :: enat], weights = [[1, 1, 1]], J = [] \<rparr>,
        [(WARNING, [Text (''Error Vector has NaN values'' @ [CHR 0x0A] @ ''!''), Scalars [\<infinity>]]),
         (WARNING, [Text ''Displaying p_e'']),
         (WARNING, [ReferencePoint \<lparr> x = \<infinity>, y = 1, z = 1 \<rparr>]),
         (WARNING, [Text ''Displaying reference_'']),
         (WARNING, [ReferencePoint \<lparr> x = 0, y = 0, z = 0 \<rparr>]),
         (WARNING, [Text ''Displaying current_'']),
         (WARNING, [CurrentPoint \<lparr> x = \<infinity>, y = 1, z = 1, normal_x = 1, normal_y = 1, normal_z = 1, curvature = 0 \<rparr>])])"
proof -
  let ?s = "\<lparr> reference = Some [\<lparr> x = 0, y = 0, z = 0 \<rparr>],
       current = Some [\<lparr> x = \<infinity>, y = 1, z = 1, normal_x = 1, normal_y = 1, normal_z = 1, curvature = 0 \<rparr>],
       errorVector = [0 :: enat], weights = [[1, 1, 1]], J = [] \<rparr>"
  let ?ref = "[\<lparr> x = 0, y = 0, z = 0 :: enat \<rparr>]"
  let ?cur = "[\<lparr> x = \<infinity> :: enat, y = 1, z = 1, normal_x = 1, normal_y = 1, normal_z = 1, curvature = 0 \<rparr>]"
  have h1: "reference ?s = Some ?ref" and h2: "current ?s = Some ?cur"
    by simp_all
  have h3: "length (substractPointcloud ?ref ?cur) \<le> length ?cur"
    and h4: "length (substractPointcloud ?ref ?cur) \<le> length (errorVector ?s)"
    and h5: "\<forall>k. k < length (substractPointcloud ?ref ?cur) \<longrightarrow>
               k < length (weights ?s) \<and> 2 < length (weights ?s ! k)"
    by (simp_all add: substractPointcloud_def)
  from computeError_nonfinite_warns
    [where subtract = substractPointcloud and isfinite = "\<lambda>v. v \<noteq> \<infinity>", OF h1 h2 h3 h4 h5]
  obtain ev where
    loop: "computeError_loop 0 (substractPointcloud ?ref ?cur) ?cur (weights ?s) (errorVector ?s) = Inr ev"
    and warn: "(\<exists>v \<in> set ev. \<not> v \<noteq> \<infinity>) \<longrightarrow>
       computeError substractPointcloud (\<lambda>v. v \<noteq> \<infinity>) ?s =
         Inr (?s\<lparr> errorVector := ev \<rparr>,
              [(WARNING, [Text (''Error Vector has NaN values'' @ [CHR 0x0A] @ ''!''), Scalars ev]),
               (WARNING, [Text ''Displaying p_e''])]
              @ map (\<lambda>p. (WARNING, [ReferencePoint p])) (substractPointcloud ?ref ?cur)
              @ [(WARNING, [Text ''Displaying reference_''])]
              @ map (\<lambda>p. (WARNING, [ReferencePoint p])) ?ref
              @ [(WARNING, [Text ''Displaying current_''])]
              @ map (\<lambda>p. (WARNING, [CurrentPoint p])) ?cur)"
    by blast
  have "computeError_loop 0 (substractPointcloud ?ref ?cur) ?cur (weights ?s) (errorVector ?s)
          = Inr [\<infinity>]"
    by (simp add: substractPointcloud_def computeError_loop.simps Let_def)
  with loop have ev: "ev = [\<infinity>]" by simp
  from warn show ?thesis
    unfolding ev by (simp add: substractPointcloud_def)
qed

section \<open>Binding the clouds\<close>

text \<open>
  C6: for every cloud \<open>c\<close>, \<open>setInputCurrent\<close> binds \<open>c\<close> and resizes the
  per-point buffers to its cardinality: the residual vector has length \<open>|c|\<close>, the
  weight matrix is \<open>|c|\<times>3\<close> with every entry 1 and the Jacobian is the \<open>|c|\<times>6\<close> zero
  matrix.
\<close>

theorem setInputCurrent_resizes:
  "current (setInputCurrent uninitialized c s) = Some c \<and>
   length (errorVector (setInputCurrent uninitialized c s)) = length c \<and>
   weights (setInputCurrent uninitialized c s) = replicate (length c) [1, 1, 1] \<and>
   J (setInputCurrent uninitialized c s) = replicate (length c) [0, 0, 0, 0, 0, 0]"
  by (simp add: setInputCurrent_def resize_def Let_def numeral_eq_Suc)

text \<open>
  C9: \<open>setInputReference\<close> only rebinds the reference cloud. From every state, the
  residual vector, the weight matrix, the Jacobian and the current cloud are the same
  after the call, whatever the cardinality of the new reference.
\<close>

theorem setInputReference_frame:
  "reference (setInputReference c s) = Some c \<and>
   current (setInputReference c s) = current s \<and>
   errorVector (setInputReference c s) = errorVector s \<and>
   weights (setInputReference c s) = weights s \<and>
   J (setInputReference c s) = J s"
  by (simp add: setInputReference_def)

section \<open>The registration engine\<close>

text \<open>
  The constructor does not clear the Result Record. On an engine constructed over
  storage that holds ones, \<open>getResults\<close> returns a transformation of ones, which is
  not the zero matrix that \<open>clear\<close> sets.
\<close>

theorem getResults_before_run_counterexample:
  "transformation (getResults
     (Icp_ctor of_rat 340282346638528859811704183484516925440 () () [[1, 1, 1, 1], [1, 1, 1, 1], [1, 1, 1, 1], [1, 1, 1, 1]]
        :: (real, real PointXYZ, real PointXYZ, unit, unit) Icp))
     = [[1, 1, 1, 1], [1, 1, 1, 1], [1, 1, 1, 1], [1, 1, 1, 1]]
   \<and> transformation (clear (getResults
     (Icp_ctor of_rat 340282346638528859811704183484516925440 () () [[1, 1, 1, 1], [1, 1, 1, 1], [1, 1, 1, 1], [1, 1, 1, 1]]
        :: (real, real PointXYZ, real PointXYZ, unit, unit) Icp)))
     = [[0, 0, 0, 0], [0, 0, 0, 0], [0, 0, 0, 0], [0, 0, 0, 0]]
   \<and> getResults
     (Icp_ctor of_rat 340282346638528859811704183484516925440 () () [[1, 1, 1, 1], [1, 1, 1, 1], [1, 1, 1, 1], [1, 1, 1, 1]]
        :: (real, real PointXYZ, real PointXYZ, unit, unit) Icp)
     \<noteq> clear (getResults
     (Icp_ctor of_rat 340282346638528859811704183484516925440 () () [[1, 1, 1, 1], [1, 1, 1, 1], [1, 1, 1, 1], [1, 1, 1, 1]]
        :: (real, real PointXYZ, real PointXYZ, unit, unit) Icp))"
  by (simp add: getResults_def Icp_ctor_def clear_def numeral_eq_Suc)

text \<open>
  C4, as the code has it: on an engine that has not run, \<open>getResults\<close> returns the
  default-constructed Result Record and cannot fail. Its error history is empty and
  its cloud pointer is null; its transformation is whatever the storage held, since
  nothing initialises it. No operation of the engine other than \<open>run\<close> changes the
  record.
\<close>

theorem getResults_before_run:
  "getResults (Icp_ctor of_literal numeric_limits_max err0 mestimator0 uninitialized)
     = \<lparr> registeredPointCloud = None, registrationError = [], transformation = uninitialized \<rparr>
   \<and> getResults (setInputTarget tgt s) = getResults s
   \<and> getResults (setInputSource src s) = getResults s
   \<and> getResults (setParameters p s) = getResults s"
  by (simp add: getResults_def Icp_ctor_def setInputTarget_def setInputSource_def setParameters_def)

text \<open>
  \<open>setInputTarget\<close> does not touch the Result Record. On an engine that holds the
  results of a run (error history \<open>[3, 1]\<close>), the record returned after the call is the
  one returned before it, and it is not the cleared one.
\<close>

theorem setInputTarget_invalidates_counterexample:
  "registrationError (getResults
     (setInputTarget [\<lparr> x = 5, y = 5, z = 5 :: real \<rparr>]
      \<lparr> target = Some [\<lparr> x = 0, y = 0, z = 0 \<rparr>],
        kdtree = KdTreeFLANN (Some [\<lparr> x = 0, y = 0, z = 0 \<rparr>]),
        source = Some [\<lparr> x = 1, y = 0, z = 0 :: real \<rparr>],
        err = (), mestimator = (),
        param = IcpParameters_ctor of_rat 340282346638528859811704183484516925440,
        r = \<lparr> registeredPointCloud = Some [\<lparr> x = 0, y = 0, z = 0 :: real \<rparr>],
              registrationError = [3, 1 :: real],
              transformation = [[1, 0, 0, - 1], [0, 1, 0, 0], [0, 0, 1, 0], [0, 0, 0, 1]] \<rparr> \<rparr>)) = [3, 1]
   \<and> getResults
     (setInputTarget [\<lparr> x = 5, y = 5, z = 5 :: real \<rparr>]
      \<lparr> target = Some [\<lparr> x = 0, y = 0, z = 0 \<rparr>],
        kdtree = KdTreeFLANN (Some [\<lparr> x = 0, y = 0, z = 0 \<rparr>]),
        source = Some [\<lparr> x = 1, y = 0, z = 0 :: real \<rparr>],
        err = (), mestimator = (),
        param = IcpParameters_ctor of_rat 340282346638528859811704183484516925440,
        r = \<lparr> registeredPointCloud = Some [\<lparr> x = 0, y = 0, z = 0 :: real \<rparr>],
              registrationError = [3, 1 :: real],
              transformation = [[1, 0, 0, - 1], [0, 1, 0, 0], [0, 0, 1, 0], [0, 0, 0, 1]] \<rparr> \<rparr>)
     = getResults
      \<lparr> target = Some [\<lparr> x = 0, y = 0, z = 0 \<rparr>],
        kdtree = KdTreeFLANN (Some [\<lparr> x = 0, y = 0, z = 0 \<rparr>]),
        source = Some [\<lparr> x = 1, y = 0, z = 0 :: real \<rparr>],
        err = (), mestimator = (),
        param = IcpParameters_ctor of_rat 340282346638528859811704183484516925440,
        r = \<lparr> registeredPointCloud = Some [\<lparr> x = 0, y = 0, z = 0 :: real \<rparr>],
              registrationError = [3, 1 :: real],
              transformation = [[1, 0, 0, - 1], [0, 1, 0, 0], [0, 0, 1, 0], [0, 0, 0, 1]] \<rparr> \<rparr>
   \<and> getResults
     (setInputTarget [\<lparr> x = 5, y = 5, z = 5 :: real \<rparr>]
      \<lparr> target = Some [\<lparr> x = 0, y = 0, z = 0 \<rparr>],
        kdtree = KdTreeFLANN (Some [\<lparr> x = 0, y = 0, z = 0 \<rparr>]),
        source = Some [\<lparr> x = 1, y = 0, z = 0 :: real \<rparr>],
        err = (), mestimator = (),
        param = IcpParameters_ctor of_rat 340282346638528859811704183484516925440,
        r = \<lparr> registeredPointCloud = Some [\<lparr> x = 0, y = 0, z = 0 :: real \<rparr>],
              registrationError = [3, 1 :: real],
              transformation = [[1, 0, 0, - 1], [0, 1, 0, 0], [0, 0, 1, 0], [0, 0, 0, 1]] \<rparr> \<rparr>)
     \<noteq> clear (getResults
      \<lparr> target = Some [\<lparr> x = 0, y = 0, z = 0 \<rparr>],
        kdtree = KdTreeFLANN (Some [\<lparr> x = 0, y = 0, z = 0 \<rparr>]),
        source = Some [\<lparr> x = 1, y = 0, z = 0 :: real \<rparr>],
        err = (), mestimator = (),
        param = IcpParameters_ctor of_rat 340282346638528859811704183484516925440,
        r = \<lparr> registeredPointCloud = Some [\<lparr> x = 0, y = 0, z = 0 :: real \<rparr>],
              registrationError = [3, 1 :: real],
              transformation = [[1, 0, 0, - 1], [0, 1, 0, 0], [0, 0, 1, 0], [0, 0, 0, 1]] \<rparr> \<rparr>)"
  by (simp add: getResults_def setInputTarget_def clear_def)

text \<open>
  C5, as the code has it: \<open>setInputTarget\<close>, from any engine state, stores the
  reference cloud and rebuilds the nearest-neighbour index from it. The Result Record,
  the source cloud and the parameters are left as they were.
\<close>

theorem setInputTarget_effect:
  "target (setInputTarget cloud s) = Some cloud
   \<and> kdtree (setInputTarget cloud s) = KdTreeFLANN (Some cloud)
   \<and> getResults (setInputTarget cloud s) = getResults s
   \<and> source (setInputTarget cloud s) = source s
   \<and> param (setInputTarget cloud s) = param s"
  by (simp add: setInputTarget_def setInputCloud_def getResults_def)

end
